theory Spec2Isabelle
  imports Main
begin

section \<open>Python values, errors and the standard-library operations the export uses\<close>

text \<open>
  \<^verbatim>\<open>element_session/export/nwb.py\<close> holds one function, \<^verbatim>\<open>session_to_nwb\<close>. It reads
  rows from a relational store, converts a timestamp, and builds one \<^verbatim>\<open>pynwb.NWBFile\<close>.
  Every \<^verbatim>\<open>raise\<close> of the function and of the library calls it makes is a value \<open>Inl e\<close>
  of the model.
\<close>

datatype error =
    DataJointError string
  | ValueError string
  | TypeError string
  | KeyError string
  | AttributeError string
  | OverflowError string
  | ExternalError string

fun is_DataJointError :: "error \<Rightarrow> bool" where
  "is_DataJointError (DataJointError m) = True"
| "is_DataJointError e = False"

definition bindE :: "error + 'a \<Rightarrow> ('a \<Rightarrow> error + 'b) \<Rightarrow> error + 'b" where
  "bindE m f = (case m of Inl e \<Rightarrow> Inl e | Inr x \<Rightarrow> f x)"

subsection \<open>\<^verbatim>\<open>datetime.datetime\<close>\<close>

text \<open>
  A datetime is its wall-clock reading, counted in microseconds since
  \<^verbatim>\<open>0001-01-01T00:00:00\<close>, and its \<^verbatim>\<open>tzinfo\<close>: \<open>None\<close> for a naive datetime, \<open>Some off\<close> for
  an aware one whose \<^verbatim>\<open>utcoffset()\<close> is \<open>off\<close> microseconds. The absolute instant of an
  aware datetime is \<open>wall - off\<close>. A fixed-offset \<^verbatim>\<open>datetime.timezone\<close> is its offset, and
  \<^verbatim>\<open>datetime.timezone.utc\<close> is the offset \<open>0\<close>.
\<close>

record datetime =
  wall :: int
  tzinfo :: "int option"

definition us_per_second :: int where "us_per_second = 1000000"
definition us_per_minute :: int where "us_per_minute = 60000000"
definition us_per_hour :: int where "us_per_hour = 3600000000"
definition us_per_day :: int where "us_per_day = 86400000000"

text \<open>The proleptic Gregorian calendar of \<^verbatim>\<open>Lib/_pydatetime.py\<close>.\<close>

definition is_leap :: "int \<Rightarrow> bool" where
  "is_leap year \<longleftrightarrow> year mod 4 = 0 \<and> (year mod 100 \<noteq> 0 \<or> year mod 400 = 0)"

definition days_before_year :: "int \<Rightarrow> int" where
  "days_before_year year = (let y = year - 1 in y * 365 + y div 4 - y div 100 + y div 400)"

definition DAYS_IN_MONTH :: "int list" where
  "DAYS_IN_MONTH = [-1, 31, 28, 31, 30, 31, 30, 31, 31, 30, 31, 30, 31]"

definition DAYS_BEFORE_MONTH :: "int list" where
  "DAYS_BEFORE_MONTH = [-1, 0, 31, 59, 90, 120, 151, 181, 212, 243, 273, 304, 334]"

definition days_before_month :: "int \<Rightarrow> int \<Rightarrow> int" where
  "days_before_month year month =
     DAYS_BEFORE_MONTH ! nat month + (if month > 2 \<and> is_leap year then 1 else 0)"

definition ymd2ord :: "int \<Rightarrow> int \<Rightarrow> int \<Rightarrow> int" where
  "ymd2ord year month day = days_before_year year + days_before_month year month + day"

definition DI400Y :: int where "DI400Y = 146097"
definition DI100Y :: int where "DI100Y = 36524"
definition DI4Y :: int where "DI4Y = 1461"

definition ord2ymd :: "int \<Rightarrow> int \<times> int \<times> int" where
  "ord2ymd ordinal =
     (let n = ordinal - 1;
          n400 = n div DI400Y; n = n mod DI400Y;
          n100 = n div DI100Y; n = n mod DI100Y;
          n4 = n div DI4Y; n = n mod DI4Y;
          n1 = n div 365; n = n mod 365;
          year = n400 * 400 + 1 + n100 * 100 + n4 * 4 + n1
      in if n1 = 4 \<or> n100 = 4 then (year - 1, 12, 31)
         else
           let leapyear = (n1 = 3 \<and> (n4 \<noteq> 24 \<or> n100 = 3));
               month = (n + 50) div 32;
               preceding = DAYS_BEFORE_MONTH ! nat month + (if month > 2 \<and> leapyear then 1 else 0)
           in if preceding > n
              then let month' = month - 1;
                       preceding' = preceding -
                         (DAYS_IN_MONTH ! nat month' + (if month' = 2 \<and> leapyear then 1 else 0))
                   in (year, month', n - preceding' + 1)
              else (year, month, n - preceding + 1))"

text \<open>
  \<^verbatim>\<open>datetime(year, month, day, hour, minute, second, microsecond, tzinfo)\<close> for fields that
  are in range (the constructor's range checks are not part of the export).
\<close>

definition datetime_of ::
  "int \<Rightarrow> int \<Rightarrow> int \<Rightarrow> int \<Rightarrow> int \<Rightarrow> int \<Rightarrow> int \<Rightarrow> int option \<Rightarrow> datetime" where
  "datetime_of year month day hour minute second microsecond tz =
     \<lparr>wall = (ymd2ord year month day - 1) * us_per_day + hour * us_per_hour
              + minute * us_per_minute + second * us_per_second + microsecond,
      tzinfo = tz\<rparr>"

text \<open>\<^verbatim>\<open>datetime.min\<close> to \<^verbatim>\<open>datetime.max\<close>: ordinals 1 to 3652059.\<close>

definition MAXORDINAL :: int where "MAXORDINAL = 3652059"

definition in_range :: "int \<Rightarrow> bool" where
  "in_range w \<longleftrightarrow> 0 \<le> w \<and> w < MAXORDINAL * us_per_day"

subsection \<open>Decimal rendering and \<^verbatim>\<open>isoformat\<close>\<close>

fun str_nat :: "nat \<Rightarrow> string" where
  "str_nat n =
     (if n < 10 then [''0123456789'' ! n]
      else str_nat (n div 10) @ [''0123456789'' ! (n mod 10)])"

declare str_nat.simps [simp del]

text \<open>\<^verbatim>\<open>"%0wd" % n\<close> for \<open>n \<ge> 0\<close>.\<close>

definition zero_pad :: "nat \<Rightarrow> int \<Rightarrow> string" where
  "zero_pad w n = (let s = str_nat (nat n) in replicate (w - length s) (CHR ''0'') @ s)"

definition format_time :: "int \<Rightarrow> string" where
  "format_time t =
     (let hh = t div us_per_hour;
          mm = (t mod us_per_hour) div us_per_minute;
          ss = (t mod us_per_minute) div us_per_second;
          us = t mod us_per_second
      in zero_pad 2 hh @ '':'' @ zero_pad 2 mm @ '':'' @ zero_pad 2 ss
         @ (if us = 0 then [] else ''.'' @ zero_pad 6 us))"

definition format_offset :: "int option \<Rightarrow> string" where
  "format_offset off =
     (case off of
        None \<Rightarrow> []
      | Some d \<Rightarrow>
          let sign = (if d < 0 then ''-'' else ''+'');
              a = \<bar>d\<bar>;
              hh = a div us_per_hour;
              mm = (a mod us_per_hour) div us_per_minute;
              ss = a mod us_per_minute
          in sign @ zero_pad 2 hh @ '':'' @ zero_pad 2 mm
             @ (if ss = 0 then []
                else '':'' @ zero_pad 2 (ss div us_per_second)
                     @ (if ss mod us_per_second = 0 then []
                        else ''.'' @ zero_pad 6 (ss mod us_per_second))))"

definition isoformat :: "datetime \<Rightarrow> string" where
  "isoformat d =
     (case ord2ymd (wall d div us_per_day + 1) of
        (year, month, day) \<Rightarrow>
          zero_pad 4 year @ ''-'' @ zero_pad 2 month @ ''-'' @ zero_pad 2 day @ ''T''
          @ format_time (wall d mod us_per_day) @ format_offset (tzinfo d))"

subsection \<open>\<^verbatim>\<open>timedelta(hours=h)\<close>, \<^verbatim>\<open>timezone(td)\<close> and \<^verbatim>\<open>astimezone\<close>\<close>

text \<open>
  A \<^verbatim>\<open>timedelta\<close> is its length in microseconds. \<^verbatim>\<open>timedelta(hours=h)\<close> raises
  \<^verbatim>\<open>OverflowError\<close> when the normalised number of days exceeds 999999999 in magnitude;
  \<^verbatim>\<open>timezone(td)\<close> raises \<^verbatim>\<open>ValueError\<close> unless \<open>td\<close> is strictly between minus and plus
  24 hours.
\<close>

definition timedelta_hours :: "int \<Rightarrow> error + int" where
  "timedelta_hours hours =
     (if - 999999999 \<le> hours div 24 \<and> hours div 24 \<le> 999999999
      then Inr (hours * us_per_hour)
      else Inl (OverflowError ''days; must have magnitude <= 999999999''))"

definition timezone :: "int \<Rightarrow> error + int" where
  "timezone td =
     (if - us_per_day < td \<and> td < us_per_day then Inr td
      else Inl (ValueError ''offset must be a timedelta strictly between -timedelta(hours=24) and timedelta(hours=24)''))"

definition timezone_utc :: int where "timezone_utc = 0"

text \<open>
  \<^verbatim>\<open>self.astimezone(tz)\<close>: the same instant read at the offset \<open>tz\<close>. A naive \<^verbatim>\<open>self\<close> is
  taken to be in the system's local time zone, whose offset at that reading is the
  parameter \<open>local\<close>. Both the subtraction of the old offset and the addition of the new
  one raise \<^verbatim>\<open>OverflowError\<close> when they leave the range of representable dates.
  The value is a new datetime: \<^verbatim>\<open>self\<close> is immutable.
\<close>

definition astimezone :: "(int \<Rightarrow> int) \<Rightarrow> datetime \<Rightarrow> int \<Rightarrow> error + datetime" where
  "astimezone local self tz =
     (let myoffset = (case tzinfo self of None \<Rightarrow> local (wall self) | Some off \<Rightarrow> off);
          utc = wall self - myoffset
      in if \<not> in_range utc then Inl (OverflowError ''date value out of range'')
         else if \<not> in_range (utc + tz) then Inl (OverflowError ''date value out of range'')
         else Inr \<lparr>wall = utc + tz, tzinfo = Some tz\<rparr>)"

subsection \<open>\<^verbatim>\<open>int(s)\<close> on a string\<close>

text \<open>
  Base-10 \<^verbatim>\<open>int(s)\<close>: surrounding whitespace is stripped, then an optional sign, then
  digits, single underscores allowed between digits. Anything else raises
  \<^verbatim>\<open>ValueError\<close>; the model returns \<open>None\<close> there. Characters are the 256 of Latin-1.
\<close>

definition is_space :: "char \<Rightarrow> bool" where
  "is_space c \<longleftrightarrow> of_char c \<in> {9, 10, 11, 12, 13, 32, 133, 160 :: nat}"

definition is_digit :: "char \<Rightarrow> bool" where
  "is_digit c \<longleftrightarrow> (48 :: nat) \<le> of_char c \<and> of_char c \<le> (57 :: nat)"

definition digit_val :: "char \<Rightarrow> int" where
  "digit_val c = int (of_char c) - 48"

fun int_digits :: "int \<Rightarrow> string \<Rightarrow> int option" where
  "int_digits acc [] = Some acc"
| "int_digits acc [c] = (if is_digit c then Some (acc * 10 + digit_val c) else None)"
| "int_digits acc (c # d # ds) =
     (if c = CHR ''_'' then
        (if is_digit d then int_digits (acc * 10 + digit_val d) ds else None)
      else if is_digit c then int_digits (acc * 10 + digit_val c) (d # ds)
      else None)"

definition strip :: "string \<Rightarrow> string" where
  "strip s = rev (dropWhile is_space (rev (dropWhile is_space s)))"

definition unsigned_int :: "string \<Rightarrow> int option" where
  "unsigned_int s =
     (case s of
        [] \<Rightarrow> None
      | c # cs \<Rightarrow> if is_digit c then int_digits (digit_val c) cs else None)"

definition py_int :: "string \<Rightarrow> int option" where
  "py_int s =
     (case strip s of
        [] \<Rightarrow> None
      | c # cs \<Rightarrow>
          if c = CHR ''-'' then map_option uminus (unsigned_int cs)
          else if c = CHR ''+'' then unsigned_int cs
          else unsigned_int (c # cs))"

section \<open>The relational store\<close>

text \<open>
  The store is the DataJoint schema the module imports as \<^verbatim>\<open>session\<close> (and the optional
  \<^verbatim>\<open>element_animal\<close> and \<^verbatim>\<open>element_lab\<close> schemas). A fetched attribute value is
  one of the Python values below, a row is the \<^verbatim>\<open>dict\<close> that \<^verbatim>\<open>fetch1\<close> returns (an
  association list, in heading order), and a table or query expression is its heading, its
  primary key and its rows in fetch order.
\<close>

datatype pyval = PyNone | PyStr string | PyInt int | PyDatetime datetime

type_synonym row = "(string \<times> pyval) list"

record table =
  heading :: "string list"
  primary_key :: "string list"
  rows :: "row list"

text \<open>\<^verbatim>\<open>d.get(k, default)\<close> and \<^verbatim>\<open>d[k]\<close>.\<close>

definition dict_get :: "row \<Rightarrow> string \<Rightarrow> pyval \<Rightarrow> pyval" where
  "dict_get d k dflt = (case map_of d k of None \<Rightarrow> dflt | Some v \<Rightarrow> v)"

definition getitem :: "row \<Rightarrow> string \<Rightarrow> error + pyval" where
  "getitem d k = (case map_of d k of None \<Rightarrow> Inl (KeyError k) | Some v \<Rightarrow> Inr v)"

text \<open>
  \<^verbatim>\<open>table & key\<close> for a \<^verbatim>\<open>dict\<close>: the rows that agree with the key on every key entry
  that names an attribute of the heading; other entries are ignored.
\<close>

definition restrict_dict :: "table \<Rightarrow> row \<Rightarrow> table" where
  "restrict_dict t key =
     t\<lparr>rows := filter (\<lambda>r. list_all (\<lambda>(k, v). k \<in> set (heading t) \<longrightarrow> map_of r k = Some v) key)
                       (rows t)\<rparr>"

text \<open>
  \<^verbatim>\<open>table & other\<close> for another query expression: the rows that agree with some row of
  \<^verbatim>\<open>other\<close> on the attributes common to both headings.
\<close>

definition restrict_table :: "table \<Rightarrow> table \<Rightarrow> table" where
  "restrict_table t other =
     t\<lparr>rows := filter (\<lambda>r. list_ex (\<lambda>s. list_all (\<lambda>k. k \<in> set (heading other) \<longrightarrow>
                                                        map_of r k = map_of s k) (heading t))
                                    (rows other))
                       (rows t)\<rparr>"

text \<open>
  \<^verbatim>\<open>fetch1("KEY")\<close> and \<^verbatim>\<open>fetch1()\<close> raise \<^verbatim>\<open>DataJointError\<close> unless the expression has
  exactly one row; \<^verbatim>\<open>fetch(attr)\<close> returns the attribute's values in fetch order.
\<close>

definition fetch1_KEY :: "table \<Rightarrow> error + row" where
  "fetch1_KEY t =
     (case rows t of
        [r] \<Rightarrow> Inr (map (\<lambda>k. (k, dict_get r k PyNone)) (primary_key t))
      | rs \<Rightarrow> Inl (DataJointError ''fetch1 should only return one tuple.''))"

definition fetch1 :: "table \<Rightarrow> error + row" where
  "fetch1 t =
     (case rows t of
        [r] \<Rightarrow> Inr r
      | rs \<Rightarrow> Inl (DataJointError ''fetch1 requires exactly one tuple in the input set.''))"

definition fetch :: "table \<Rightarrow> string \<Rightarrow> error + pyval list" where
  "fetch t attr =
     (if attr \<in> set (heading t) then Inr (map (\<lambda>r. dict_get r attr PyNone) (rows t))
      else Inl (DataJointError ''Attribute not found''))"

text \<open>\<^verbatim>\<open>sep.join(values)\<close> raises \<^verbatim>\<open>TypeError\<close> on a value that is not a \<^verbatim>\<open>str\<close>.\<close>

fun str_join :: "string \<Rightarrow> pyval list \<Rightarrow> error + string" where
  "str_join sep [] = Inr []"
| "str_join sep [v] =
     (case v of PyStr s \<Rightarrow> Inr s | _ \<Rightarrow> Inl (TypeError ''expected str instance''))"
| "str_join sep (v # vs) =
     (case v of
        PyStr s \<Rightarrow> bindE (str_join sep vs) (\<lambda>r. Inr (s @ sep @ r))
      | _ \<Rightarrow> Inl (TypeError ''expected str instance''))"

section \<open>The output artifact\<close>

text \<open>
  \<^verbatim>\<open>pynwb.file.Subject\<close> and \<^verbatim>\<open>pynwb.NWBFile\<close> are records of the keyword arguments they
  are built from (\<open>nwb_identifier\<close> is the argument \<^verbatim>\<open>identifier\<close>); an argument that is not
  passed is \<open>None\<close>. \<open>nwbfile_kwargs\<close> is the
  dictionary of that name as it stands after line 79 of the source.
\<close>

record nwb_subject =
  subject_id :: pyval
  sex :: pyval

record nwbfile_kwargs =
  session_id :: string
  nwb_identifier :: string
  session_start_time :: datetime
  session_description :: pyval
  experimenter :: "pyval list option"

record NWBFile = nwbfile_kwargs +
  subject :: nwb_subject
  institution :: pyval
  lab :: pyval

definition new_NWBFile :: "nwbfile_kwargs \<Rightarrow> nwb_subject \<Rightarrow> pyval \<Rightarrow> pyval \<Rightarrow> NWBFile" where
  "new_NWBFile kw s i l =
     \<lparr>session_id = session_id kw, nwb_identifier = nwb_identifier kw,
      session_start_time = session_start_time kw,
      session_description = session_description kw,
      experimenter = experimenter kw,
      subject = s, institution = i, lab = l\<rparr>"

section \<open>The collaborators of \<^verbatim>\<open>session_to_nwb\<close>\<close>

text \<open>
  Everything the function reads from outside its arguments: the tables, the two
  optional providers with their activation state, the provider's \<^verbatim>\<open>subject_to_nwb\<close>,
  the store's left join, the system's local UTC offset (used by \<^verbatim>\<open>astimezone\<close> on a
  naive datetime) and the sequence of values that successive \<^verbatim>\<open>str(uuid4())\<close> calls
  return. The module refers to \<^verbatim>\<open>subject\<close>, \<^verbatim>\<open>lab\<close>, \<^verbatim>\<open>timedelta\<close>, \<^verbatim>\<open>timezone\<close> and
  \<^verbatim>\<open>DataJointError\<close> without importing them; they are taken as the collaborators of
  those names (\<^verbatim>\<open>element_animal.subject\<close>, \<^verbatim>\<open>element_lab.lab\<close>, \<^verbatim>\<open>datetime.timedelta\<close>,
  \<^verbatim>\<open>datetime.timezone\<close>, \<^verbatim>\<open>datajoint.DataJointError\<close>).

  The left join is the store's: for a session without a note row it decides whether
  the joined row has no \<^verbatim>\<open>session_note\<close> entry or has one holding \<open>None\<close>.
\<close>

record world =
  Session :: table
  SessionNote :: table
  SessionExperimenter :: table
  join_left :: "table \<Rightarrow> table \<Rightarrow> table"
  HAVE_ELEMENT_ANIMAL :: bool
  subject_schema_is_activated :: bool
  Subject :: table
  Subject_Lab :: table
  subject_to_nwb :: "table \<Rightarrow> error + nwb_subject"
  HAVE_ELEMENT_LAB :: bool
  lab_schema_is_activated :: bool
  Lab :: table
  local_utcoffset :: "int \<Rightarrow> int"
  uuid4 :: "nat \<Rightarrow> string"

section \<open>\<^verbatim>\<open>session_to_nwb\<close>\<close>

text \<open>
  Lines 58 to 61, \<^verbatim>\<open>v.isoformat() if isinstance(v, datetime.datetime) else v\<close>, and the
  method call \<^verbatim>\<open>v.astimezone(tz)\<close> of lines 70 to 72 on a fetched value, which raises
  \<^verbatim>\<open>AttributeError\<close> on a value that is not a datetime.
\<close>

definition isoformat_if_datetime :: "pyval \<Rightarrow> pyval" where
  "isoformat_if_datetime v = (case v of PyDatetime d \<Rightarrow> PyStr (isoformat d) | other \<Rightarrow> v)"

definition call_astimezone :: "world \<Rightarrow> pyval \<Rightarrow> int \<Rightarrow> error + datetime" where
  "call_astimezone w v tz =
     (case v of
        PyDatetime d \<Rightarrow> astimezone (local_utcoffset w) d tz
      | other \<Rightarrow> Inl (AttributeError ''object has no attribute astimezone''))"

text \<open>
  Lines 56 to 79: the session key is replaced by the primary key of the one matching
  session, the identifiers are built, the session row is fetched with its optional note
  and the experimenters are fetched. The second component counts the \<^verbatim>\<open>uuid4()\<close> calls
  made so far: it is advanced exactly when line 64 is reached without an exception.
\<close>

definition session_kwargs ::
  "world \<Rightarrow> nat \<Rightarrow> row \<Rightarrow> (error + row \<times> nwbfile_kwargs) \<times> nat" where
  "session_kwargs w rng session_key0 =
     (case fetch1_KEY (restrict_dict (Session w) session_key0) of
        Inl e \<Rightarrow> (Inl e, rng)
      | Inr session_key \<Rightarrow>
          let session_identifier =
                map (\<lambda>(k, v). (k, isoformat_if_datetime v)) session_key
          in (case str_join ''_'' (map snd session_identifier) of
               Inl e \<Rightarrow> (Inl e, rng)
             | Inr sid \<Rightarrow>
                 (bindE (fetch1 (join_left w (restrict_dict (Session w) session_key)
                                              (SessionNote w))) (\<lambda>session_info.
                  bindE (getitem session_info ''session_datetime'') (\<lambda>stored.
                  bindE (call_astimezone w stored timezone_utc) (\<lambda>start.
                  bindE (fetch (restrict_dict (SessionExperimenter w) session_key)
                               ''experimenter'') (\<lambda>experimenters.
                  Inr (session_key,
                       \<lparr>session_id = sid,
                        nwb_identifier = uuid4 w rng,
                        session_start_time = start,
                        session_description = dict_get session_info ''session_note'' (PyStr []),
                        experimenter = (if experimenters = [] then None
                                        else Some experimenters)\<rparr>))))),
                  Suc rng)))"

text \<open>
  Lines 98 to 107: when the lab record has a \<^verbatim>\<open>time_zone\<close> whose first three characters
  are \<^verbatim>\<open>UTC\<close>, the rest is parsed as an integer number of hours and
  \<^verbatim>\<open>nwbfile_kwargs["session_start_time"].astimezone(timezone(timedelta(hours=hours)))\<close>
  is evaluated. The expression is a statement of its own: its value is dropped, and
  \<^verbatim>\<open>nwbfile_kwargs["session_start_time"]\<close> is what it was. The result is that entry
  after the block.
\<close>

definition localize_start_time :: "world \<Rightarrow> row \<Rightarrow> datetime \<Rightarrow> error + datetime" where
  "localize_start_time w lab_record start =
     (case map_of lab_record ''time_zone'' of
        None \<Rightarrow> Inr start
      | Some (PyStr time_zone) \<Rightarrow>
          if take 3 time_zone = ''UTC'' then
            (case py_int (drop 3 time_zone) of
               None \<Rightarrow> Inl (ValueError ''invalid literal for int() with base 10'')
             | Some hours \<Rightarrow>
                 bindE (timedelta_hours hours) (\<lambda>hours_timedelta.
                 bindE (timezone hours_timedelta) (\<lambda>tz.
                 bindE (astimezone (local_utcoffset w) start tz) (\<lambda>localized.
                 Inr start))))
          else Inr start
      | Some other \<Rightarrow> Inl (TypeError ''object is not subscriptable''))"

definition multiple_labs :: error where
  "multiple_labs = DataJointError
     ''Multiple labs associated with this session. Try restricting your session key to specify lab.''"

definition missing_subject_id :: error where
  "missing_subject_id = ValueError
     ''If you are not using element_animal, you musts specify a subject_id.''"

text \<open>Line 89: \<^verbatim>\<open>lab.Lab & subject.Subject.Lab() & session_key\<close>.\<close>

definition lab_query :: "world \<Rightarrow> row \<Rightarrow> table" where
  "lab_query w session_key = restrict_dict (restrict_table (Lab w) (Subject_Lab w)) session_key"

text \<open>
  Lines 81 to 120, after the first stage. \<open>subject_id_arg\<close> is the argument
  \<^verbatim>\<open>subject_id\<close>: \<open>PyNone\<close> when the caller passes none.
\<close>

definition subject_and_lab ::
  "world \<Rightarrow> row \<Rightarrow> nwbfile_kwargs \<Rightarrow> pyval \<Rightarrow> error + NWBFile" where
  "subject_and_lab w session_key kw subject_id_arg =
     (if HAVE_ELEMENT_ANIMAL w \<and> subject_schema_is_activated w then
        bindE (subject_to_nwb w (restrict_dict (Subject w) session_key)) (\<lambda>subj.
          if HAVE_ELEMENT_LAB w \<and> lab_schema_is_activated w then
            if rows (lab_query w session_key) \<noteq> [] then
                 (case fetch1 (lab_query w session_key) of
                    Inl e \<Rightarrow> if is_DataJointError e then Inl multiple_labs else Inl e
                  | Inr lab_record \<Rightarrow>
                      (case localize_start_time w lab_record (session_start_time kw) of
                         Inl e \<Rightarrow> if is_DataJointError e then Inl multiple_labs else Inl e
                       | Inr start \<Rightarrow>
                           Inr (new_NWBFile (kw\<lparr>session_start_time := start\<rparr>) subj
                                  (dict_get lab_record ''institution'' PyNone)
                                  (dict_get lab_record ''lab_name'' PyNone))))
               else Inr (new_NWBFile kw subj PyNone PyNone)
          else Inr (new_NWBFile kw subj PyNone PyNone))
      else if subject_id_arg = PyNone then Inl missing_subject_id
      else Inr (new_NWBFile kw \<lparr>subject_id = subject_id_arg, sex = PyNone\<rparr> PyNone PyNone))"

definition session_to_nwb :: "world \<Rightarrow> nat \<Rightarrow> row \<Rightarrow> pyval \<Rightarrow> (error + NWBFile) \<times> nat" where
  "session_to_nwb w rng session_key subject_id_arg =
     (case session_kwargs w rng session_key of
        (Inl e, rng') \<Rightarrow> (Inl e, rng')
      | (Inr (session_key', kw), rng') \<Rightarrow>
          (subject_and_lab w session_key' kw subject_id_arg, rng'))"

section \<open>Example stores\<close>

text \<open>
  A left join over association lists. \<open>unmatched k\<close> is what the joined row holds for
  an attribute \<open>k\<close> of the right table when no right row matches: nothing
  (\<open>leave_out\<close>) or an entry holding \<open>None\<close> (\<open>null_entry\<close>, what a SQL \<^verbatim>\<open>NULL\<close> is
  fetched as).
\<close>

definition left_join_with :: "(string \<Rightarrow> row) \<Rightarrow> table \<Rightarrow> table \<Rightarrow> table" where
  "left_join_with unmatched t u =
     (let extra = filter (\<lambda>k. k \<notin> set (heading t)) (heading u);
          matching = (\<lambda>a. filter (\<lambda>b. list_all (\<lambda>k. k \<in> set (heading u) \<longrightarrow>
                                                       map_of a k = map_of b k) (heading t))
                                 (rows u))
      in \<lparr>heading = heading t @ extra,
          primary_key = primary_key t,
          rows = concat (map (\<lambda>a. if matching a = [] then [a @ concat (map unmatched extra)]
                                   else map (\<lambda>b. a @ filter (\<lambda>(k, v). k \<in> set extra) b)
                                            (matching a))
                             (rows t))\<rparr>)"

definition leave_out :: "string \<Rightarrow> row" where
  "leave_out k = []"

definition null_entry :: "string \<Rightarrow> row" where
  "null_entry k = [(k, PyNone)]"

text \<open>
  Two sessions, the docstring's \<^verbatim>\<open>subject5\<close> (two experimenters and a note) and
  \<^verbatim>\<open>subject6\<close> (no experimenter, no note); one lab in time zone \<^verbatim>\<open>UTC-5\<close>. The store's
  left join reports a missing note as SQL does.
\<close>

definition session5 :: row where
  "session5 = [(''subject'', PyStr ''subject5''),
               (''session_datetime'', PyDatetime (datetime_of 2020 5 12 4 13 7 0 None))]"

definition session6 :: row where
  "session6 = [(''subject'', PyStr ''subject6''),
               (''session_datetime'', PyDatetime (datetime_of 2021 1 2 3 4 5 0 None))]"

definition lab_record5 :: row where
  "lab_record5 = [(''lab'', PyStr ''lab1''), (''lab_name'', PyStr ''Lab One''),
                  (''institution'', PyStr ''Institute''), (''time_zone'', PyStr ''UTC-5'')]"

definition lab_heading :: "string list" where
  "lab_heading = [''lab'', ''lab_name'', ''institution'', ''time_zone'']"

definition example_subject_to_nwb :: "table \<Rightarrow> error + nwb_subject" where
  "example_subject_to_nwb q =
     (case rows q of
        [r] \<Rightarrow> Inr \<lparr>subject_id = dict_get r ''subject'' PyNone, sex = dict_get r ''sex'' PyNone\<rparr>
      | rs \<Rightarrow> Inl (ExternalError ''subject_to_nwb''))"

definition example_uuid4 :: "nat \<Rightarrow> string" where
  "example_uuid4 n = ''7d8f1a2c-0000-4000-8000-'' @ replicate n (CHR ''0'')"

definition store :: world where
  "store =
     \<lparr>Session = \<lparr>heading = [''subject'', ''session_datetime''],
                 primary_key = [''subject'', ''session_datetime''],
                 rows = [session5, session6]\<rparr>,
      SessionNote = \<lparr>heading = [''subject'', ''session_datetime'', ''session_note''],
                     primary_key = [''subject'', ''session_datetime''],
                     rows = [session5 @ [(''session_note'', PyStr ''first day'')]]\<rparr>,
      SessionExperimenter = \<lparr>heading = [''subject'', ''session_datetime'', ''experimenter''],
                             primary_key = [''subject'', ''session_datetime'', ''experimenter''],
                             rows = [session5 @ [(''experimenter'', PyStr ''zoe'')],
                                     session5 @ [(''experimenter'', PyStr ''adam'')]]\<rparr>,
      join_left = left_join_with null_entry,
      HAVE_ELEMENT_ANIMAL = False,
      subject_schema_is_activated = False,
      Subject = \<lparr>heading = [''subject'', ''sex''], primary_key = [''subject''],
                 rows = [[(''subject'', PyStr ''subject5''), (''sex'', PyStr ''F'')],
                         [(''subject'', PyStr ''subject6''), (''sex'', PyStr ''M'')]]\<rparr>,
      Subject_Lab = \<lparr>heading = [''subject'', ''lab''], primary_key = [''subject'', ''lab''],
                     rows = [[(''subject'', PyStr ''subject5''), (''lab'', PyStr ''lab1'')]]\<rparr>,
      subject_to_nwb = example_subject_to_nwb,
      HAVE_ELEMENT_LAB = False,
      lab_schema_is_activated = False,
      Lab = \<lparr>heading = lab_heading, primary_key = [''lab''], rows = [lab_record5]\<rparr>,
      local_utcoffset = (\<lambda>reading. 0),
      uuid4 = example_uuid4\<rparr>"

definition store_animal :: world where
  "store_animal = store\<lparr>HAVE_ELEMENT_ANIMAL := True, subject_schema_is_activated := True\<rparr>"

definition store_lab :: world where
  "store_lab = store_animal\<lparr>HAVE_ELEMENT_LAB := True, lab_schema_is_activated := True\<rparr>"




text \<open>What the first stage and the subject provider return for \<open>session5\<close>.\<close>

definition kwargs5 :: nwbfile_kwargs where
  "kwargs5 = \<lparr>session_id = ''subject5_2020-05-12T04:13:07'',
              nwb_identifier = ''7d8f1a2c-0000-4000-8000-'',
              session_start_time = \<lparr>wall = 63724853587000000, tzinfo = Some 0\<rparr>,
              session_description = PyStr ''first day'',
              experimenter = Some [PyStr ''zoe'', PyStr ''adam'']\<rparr>"


definition nwbfile5 :: NWBFile where
  "nwbfile5 = new_NWBFile kwargs5 \<lparr>subject_id = PyStr ''s5'', sex = PyNone\<rparr> PyNone PyNone"

text \<open>
  The artifact for \<open>session6\<close> with an explicit subject, but for its description, and
  the same store with a left join that leaves a missing note out of the row.
\<close>

definition nwbfile6 :: "pyval \<Rightarrow> NWBFile" where
  "nwbfile6 description =
     \<lparr>session_id = ''subject6_2021-01-02T03:04:05'',
      nwb_identifier = ''7d8f1a2c-0000-4000-8000-'',
      session_start_time = datetime_of 2021 1 2 3 4 5 0 (Some 0),
      session_description = description, experimenter = None,
      subject = \<lparr>subject_id = PyStr ''s6'', sex = PyNone\<rparr>,
      institution = PyNone, lab = PyNone\<rparr>"

definition store_leave_out :: world where
  "store_leave_out = store\<lparr>join_left := left_join_with leave_out\<rparr>"

text \<open>The same store on a system whose local time is five hours behind UTC.\<close>

definition store_local_minus5 :: world where
  "store_local_minus5 = store\<lparr>local_utcoffset := (\<lambda>reading. - 5 * us_per_hour)\<rparr>"

section \<open>Notions used to state the properties\<close>


text \<open>
  The store in which every joined session row that has no \<^verbatim>\<open>session_note\<close> entry is
  given one: an entry appended to a \<^verbatim>\<open>dict\<close> that already has the key is not seen by
  a lookup. It is used to compare a call on a session without a note with the call on the
  same session with one.
\<close>

definition with_session_note :: "pyval \<Rightarrow> world \<Rightarrow> world" where
  "with_session_note remark w =
     w\<lparr>join_left := (\<lambda>t u. (join_left w t u)
          \<lparr>rows := map (\<lambda>r. r @ [(''session_note'', remark)]) (rows (join_left w t u))\<rparr>)\<rparr>"

section \<open>Basic facts about the operations\<close>

lemma bindE_Inr_iff: "bindE m f = Inr y \<longleftrightarrow> (\<exists>x. m = Inr x \<and> f x = Inr y)"
  by (cases m) (simp_all add: bindE_def)

lemma bindE_Inr [simp]: "bindE (Inr x) f = f x"
  by (simp add: bindE_def)

lemma bindE_Inl [simp]: "bindE (Inl e) f = Inl e"
  by (simp add: bindE_def)

lemma fetch1_Inr_iff: "fetch1 t = Inr r \<longleftrightarrow> rows t = [r]"
  by (auto simp: fetch1_def split: list.splits)

lemma fetch1_Inl: "fetch1 t = Inl e \<Longrightarrow> is_DataJointError e \<and> length (rows t) \<noteq> 1"
  by (auto simp: fetch1_def split: list.splits)

lemma fetch1_KEY_Inr_iff:
  "fetch1_KEY t = Inr k \<longleftrightarrow>
     (\<exists>r. rows t = [r] \<and> k = map (\<lambda>a. (a, dict_get r a PyNone)) (primary_key t))"
  by (auto simp: fetch1_KEY_def split: list.splits)

lemma fetch1_KEY_not_one:
  "length (rows t) \<noteq> 1 \<Longrightarrow>
     fetch1_KEY t = Inl (DataJointError ''fetch1 should only return one tuple.'')"
  by (auto simp: fetch1_KEY_def split: list.splits)

lemma getitem_Inr_iff: "getitem d k = Inr v \<longleftrightarrow> map_of d k = Some v"
  by (auto simp: getitem_def split: option.splits)

lemma call_astimezone_Inr_iff:
  "call_astimezone w v tz = Inr s \<longleftrightarrow>
     (\<exists>d. v = PyDatetime d \<and> astimezone (local_utcoffset w) d tz = Inr s)"
  by (cases v) (simp_all add: call_astimezone_def)

text \<open>The block of lines 98 to 107 never changes the start time it is given.\<close>

lemma localize_start_time_Inr: "localize_start_time w r s = Inr s' \<Longrightarrow> s' = s"
  by (auto simp: localize_start_time_def bindE_Inr_iff
           split: option.splits pyval.splits if_splits)

text \<open>What a successful first stage has done, step by step.\<close>

lemma session_kwargs_Inr:
  assumes "fst (session_kwargs w rng key) = Inr (sk, kw)"
  shows "\<exists>sid session_info d names.
           fetch1_KEY (restrict_dict (Session w) key) = Inr sk
         \<and> str_join ''_'' (map (isoformat_if_datetime \<circ> snd) sk) = Inr sid
         \<and> fetch1 (join_left w (restrict_dict (Session w) sk) (SessionNote w)) = Inr session_info
         \<and> map_of session_info ''session_datetime'' = Some (PyDatetime d)
         \<and> astimezone (local_utcoffset w) d timezone_utc = Inr (session_start_time kw)
         \<and> fetch (restrict_dict (SessionExperimenter w) sk) ''experimenter'' = Inr names
         \<and> kw = \<lparr>session_id = sid, nwb_identifier = uuid4 w rng,
                  session_start_time = session_start_time kw,
                  session_description = dict_get session_info ''session_note'' (PyStr []),
                  experimenter = (if names = [] then None else Some names)\<rparr>
         \<and> snd (session_kwargs w rng key) = Suc rng"
proof -
  have vals: "\<And>xs. map (snd \<circ> (\<lambda>(k, v). (k, isoformat_if_datetime v))) xs
                 = map (isoformat_if_datetime \<circ> snd) xs"
    by auto
  obtain sk' where k: "fetch1_KEY (restrict_dict (Session w) key) = Inr sk'"
    using assms
    by (cases "fetch1_KEY (restrict_dict (Session w) key)") (simp_all add: session_kwargs_def)
  obtain sid where j: "str_join ''_'' (map (isoformat_if_datetime \<circ> snd) sk') = Inr sid"
    using assms k
    by (cases "str_join ''_'' (map (isoformat_if_datetime \<circ> snd) sk')")
       (simp_all add: session_kwargs_def vals)
  from assms k j show ?thesis
    by (auto simp: session_kwargs_def vals bindE_Inr_iff getitem_Inr_iff call_astimezone_Inr_iff)
qed


lemma session_to_nwb_Inr:
  "fst (session_to_nwb w rng key sid) = Inr nwb \<Longrightarrow>
     \<exists>sk kw. fst (session_kwargs w rng key) = Inr (sk, kw) \<and> subject_and_lab w sk kw sid = Inr nwb"
  by (cases "session_kwargs w rng key") (auto simp: session_to_nwb_def split: sum.splits)

text \<open>The second stage passes the five entries of the first stage on unchanged.\<close>

lemma subject_and_lab_keeps:
  assumes "subject_and_lab w sk kw sid = Inr nwb"
  shows "session_id nwb = session_id kw \<and> nwb_identifier nwb = nwb_identifier kw
       \<and> session_start_time nwb = session_start_time kw
       \<and> session_description nwb = session_description kw
       \<and> experimenter nwb = experimenter kw"
  using assms
  by (auto simp: subject_and_lab_def new_NWBFile_def bindE_Inr_iff
           split: if_splits sum.splits dest: localize_start_time_Inr)

lemma astimezone_Inr:
  assumes "astimezone local d tz = Inr s"
  shows "tzinfo s = Some tz"
    and "wall s = wall d - (case tzinfo d of None \<Rightarrow> local (wall d) | Some off \<Rightarrow> off) + tz"
  using assms by (auto simp: astimezone_def Let_def split: if_splits)



subsection \<open>A session with and without a note\<close>

lemma localize_start_time_with_session_note:
  "localize_start_time (with_session_note remark w) r s = localize_start_time w r s"
proof -
  have same: "local_utcoffset (with_session_note remark w) = local_utcoffset w"
    by (simp add: with_session_note_def)
  show ?thesis
    unfolding localize_start_time_def same by (rule refl)
qed

lemma lab_query_with_session_note:
  "lab_query (with_session_note remark w) sk = lab_query w sk"
  by (simp add: lab_query_def with_session_note_def)

lemma subject_and_lab_with_session_note:
  "subject_and_lab (with_session_note remark w) sk kw sid = subject_and_lab w sk kw sid"
proof -
  have fields: "HAVE_ELEMENT_ANIMAL (with_session_note remark w) = HAVE_ELEMENT_ANIMAL w"
      "subject_schema_is_activated (with_session_note remark w) = subject_schema_is_activated w"
      "HAVE_ELEMENT_LAB (with_session_note remark w) = HAVE_ELEMENT_LAB w"
      "lab_schema_is_activated (with_session_note remark w) = lab_schema_is_activated w"
      "subject_to_nwb (with_session_note remark w) = subject_to_nwb w"
      "Subject (with_session_note remark w) = Subject w"
    by (simp_all add: with_session_note_def)
  show ?thesis
    unfolding subject_and_lab_def fields localize_start_time_with_session_note
      lab_query_with_session_note
    by (rule refl)
qed

lemma subject_and_lab_description:
  "subject_and_lab w sk (kw\<lparr>session_description := x\<rparr>) sid =
     map_sum id (\<lambda>nwb. nwb\<lparr>session_description := x\<rparr>) (subject_and_lab w sk kw sid)"
  by (auto simp: subject_and_lab_def new_NWBFile_def bindE_def split: sum.splits)

lemma session_kwargs_with_session_note:
  assumes "fetch1_KEY (restrict_dict (Session w) key) = Inr sk"
      and "fetch1 (join_left w (restrict_dict (Session w) sk) (SessionNote w)) = Inr session_info"
      and "map_of session_info ''session_note'' = None"
  shows "session_kwargs (with_session_note remark w) rng key =
           (map_sum id (\<lambda>(sk, kw). (sk, kw\<lparr>session_description := remark\<rparr>))
                       (fst (session_kwargs w rng key)),
            snd (session_kwargs w rng key))"
proof -
  have rows: "rows (join_left w (restrict_dict (Session w) sk) (SessionNote w)) = [session_info]"
    using assms(2) by (simp add: fetch1_Inr_iff)
  have f: "fetch1 (join_left (with_session_note remark w) (restrict_dict (Session w) sk)
                     (SessionNote w))
             = Inr (session_info @ [(''session_note'', remark)])"
    by (simp add: with_session_note_def fetch1_def rows)
  have g: "getitem (session_info @ [(''session_note'', remark)]) ''session_datetime''
             = getitem session_info ''session_datetime''"
    by (simp add: getitem_def map_add_def split: option.splits)
  have d: "dict_get (session_info @ [(''session_note'', remark)]) ''session_note'' (PyStr [])
             = remark"
    using assms(3) by (simp add: dict_get_def map_add_def)
  have a: "call_astimezone (with_session_note remark w) = call_astimezone w"
    by (auto simp: call_astimezone_def with_session_note_def fun_eq_iff split: pyval.splits)
  have t: "Session (with_session_note remark w) = Session w"
      "SessionNote (with_session_note remark w) = SessionNote w"
      "SessionExperimenter (with_session_note remark w) = SessionExperimenter w"
      "uuid4 (with_session_note remark w) = uuid4 w"
    by (simp_all add: with_session_note_def)
  show ?thesis
    unfolding session_kwargs_def t a
    by (auto simp: assms(1,2) f g d Let_def bindE_def split: sum.splits)
qed

subsection \<open>The example store, evaluated\<close>

lemma store_nwbfile5: "session_to_nwb store 0 session5 (PyStr ''s5'') = (Inr nwbfile5, 1)"
  by code_simp

lemma store_local_minus5_session5:
  "fst (session_to_nwb store_local_minus5 0 session5 (PyStr ''s5'')) =
     Inr (nwbfile5\<lparr>session_start_time := datetime_of 2020 5 12 9 13 7 0 (Some 0)\<rparr>)"
  by code_simp

lemma store_session6_animal:
  "fst (session_to_nwb store_animal 0 session6 PyNone) =
     Inr \<lparr>session_id = ''subject6_2021-01-02T03:04:05'',
          nwb_identifier = ''7d8f1a2c-0000-4000-8000-'',
          session_start_time = datetime_of 2021 1 2 3 4 5 0 (Some 0),
          session_description = PyNone, experimenter = None,
          subject = \<lparr>subject_id = PyStr ''subject6'', sex = PyStr ''M''\<rparr>,
          institution = PyNone, lab = PyNone\<rparr>"
  by code_simp

text \<open>\<open>session6\<close> has no note row; the row fetched at line 67 reports the note as \<open>None\<close>.\<close>

lemma store_session6_joined_row:
  "rows (restrict_dict (SessionNote store) session6) = []
   \<and> fetch1 (join_left store (restrict_dict (Session store) session6) (SessionNote store))
       = Inr (session6 @ [(''session_note'', PyNone)])"
  by code_simp





lemma store_session5_with_subject_id:
  "session_to_nwb store 0 session5 (PyStr ''s5'') =
     (Inr \<lparr>session_id = ''subject5_2020-05-12T04:13:07'',
           nwb_identifier = ''7d8f1a2c-0000-4000-8000-'',
           session_start_time = \<lparr>wall = 63724853587000000, tzinfo = Some 0\<rparr>,
           session_description = PyStr ''first day'',
           experimenter = Some [PyStr ''zoe'', PyStr ''adam''],
           subject = \<lparr>subject_id = PyStr ''s5'', sex = PyNone\<rparr>,
           institution = PyNone, lab = PyNone\<rparr>, 1)"
  by code_simp

section \<open>The session key must resolve to one session\<close>

text \<open>
  Claim C1. For every session key, \<^verbatim>\<open>session_to_nwb\<close> fails with the store's
  not-found-or-ambiguous error (the \<^verbatim>\<open>DataJointError\<close> of \<^verbatim>\<open>fetch1\<close>, raised at line 56
  before anything else is done) when the key matches no stored session or more than one,
  and it returns an artifact only when the key matches exactly one.
\<close>

theorem session_key_must_match_one:
  "(length (rows (restrict_dict (Session w) key)) \<noteq> 1 \<longrightarrow>
      session_to_nwb w rng key sid =
        (Inl (DataJointError ''fetch1 should only return one tuple.''), rng))
   \<and> ((\<exists>nwb. fst (session_to_nwb w rng key sid) = Inr nwb) \<longrightarrow>
      length (rows (restrict_dict (Session w) key)) = 1)"
proof -
  have fails: "session_to_nwb w rng key sid =
        (Inl (DataJointError ''fetch1 should only return one tuple.''), rng)"
    if "length (rows (restrict_dict (Session w) key)) \<noteq> 1"
    using fetch1_KEY_not_one [OF that]
    by (simp add: session_to_nwb_def session_kwargs_def)
  then show ?thesis
    by (cases "length (rows (restrict_dict (Session w) key)) = 1") auto
qed

text \<open>
  No session of the example store has subject \<^verbatim>\<open>nobody\<close>, and the empty key matches
  both sessions: both calls fail at line 56. The key of \<open>session5\<close> matches one session
  and the call returns.
\<close>

theorem session_key_must_match_one_witness:
  "length (rows (restrict_dict (Session store) [(''subject'', PyStr ''nobody'')])) = 0
   \<and> session_to_nwb store 0 [(''subject'', PyStr ''nobody'')] PyNone =
        (Inl (DataJointError ''fetch1 should only return one tuple.''), 0)
   \<and> length (rows (restrict_dict (Session store) [])) = 2
   \<and> session_to_nwb store 0 [] PyNone =
        (Inl (DataJointError ''fetch1 should only return one tuple.''), 0)
   \<and> (\<exists>nwb. fst (session_to_nwb store 0 session5 (PyStr ''s5'')) = Inr nwb)
   \<and> length (rows (restrict_dict (Session store) session5)) = 1"
proof -
  have none: "length (rows (restrict_dict (Session store) [(''subject'', PyStr ''nobody'')])) = 0"
    by code_simp
  have two: "length (rows (restrict_dict (Session store) [])) = 2"
    by code_simp
  have returns: "\<exists>nwb. fst (session_to_nwb store 0 session5 (PyStr ''s5'')) = Inr nwb"
    by (simp add: store_session5_with_subject_id)
  show ?thesis
    using none two returns
      session_key_must_match_one [of store "[(''subject'', PyStr ''nobody'')]" 0 PyNone]
      session_key_must_match_one [of store "[]" 0 PyNone]
      session_key_must_match_one [of store session5 0 "PyStr ''s5''"]
    by simp
qed

section \<open>The subject sub-record\<close>





section \<open>The lab record\<close>





section \<open>The entries gathered from the session\<close>



text \<open>
  Claim C5. In every artifact returned (so for a session key matching exactly one
  session), \<^verbatim>\<open>session_start_time\<close> is the \<^verbatim>\<open>session_datetime\<close> of the fetched session
  row converted to UTC by \<^verbatim>\<open>astimezone\<close>: its offset is 0, and its reading is the stored
  reading minus the stored offset (the system's local offset for a naive timestamp).
\<close>

theorem start_time_is_stored_timestamp_in_utc:
  assumes "fst (session_to_nwb w rng key sid) = Inr nwb"
  shows "\<exists>sk session_info d.
           fetch1_KEY (restrict_dict (Session w) key) = Inr sk
         \<and> fetch1 (join_left w (restrict_dict (Session w) sk) (SessionNote w)) = Inr session_info
         \<and> map_of session_info ''session_datetime'' = Some (PyDatetime d)
         \<and> astimezone (local_utcoffset w) d timezone_utc = Inr (session_start_time nwb)
         \<and> tzinfo (session_start_time nwb) = Some 0
         \<and> wall (session_start_time nwb) =
             wall d - (case tzinfo d of None \<Rightarrow> local_utcoffset w (wall d) | Some off \<Rightarrow> off)"
proof -
  from session_to_nwb_Inr [OF assms] obtain sk kw
    where kw: "fst (session_kwargs w rng key) = Inr (sk, kw)"
      and nwb: "subject_and_lab w sk kw sid = Inr nwb"
    by blast
  from subject_and_lab_keeps [OF nwb] have same: "session_start_time nwb = session_start_time kw"
    by simp
  from session_kwargs_Inr [OF kw] obtain session_info d
    where k: "fetch1_KEY (restrict_dict (Session w) key) = Inr sk"
      and i: "fetch1 (join_left w (restrict_dict (Session w) sk) (SessionNote w)) = Inr session_info"
      and d: "map_of session_info ''session_datetime'' = Some (PyDatetime d)"
      and u: "astimezone (local_utcoffset w) d timezone_utc = Inr (session_start_time kw)"
    by blast
  from astimezone_Inr [OF u] k i d u same show ?thesis
    by (auto simp: timezone_utc_def)
qed

text \<open>
  On a system five hours behind UTC the stored naive \<^verbatim>\<open>2020-05-12T04:13:07\<close> becomes
  \<^verbatim>\<open>2020-05-12T09:13:07+00:00\<close>.
\<close>

theorem start_time_is_stored_timestamp_in_utc_witness:
  "fst (session_to_nwb store_local_minus5 0 session5 (PyStr ''s5'')) =
     Inr (nwbfile5\<lparr>session_start_time := datetime_of 2020 5 12 9 13 7 0 (Some 0)\<rparr>)
   \<and> (\<exists>sk session_info.
         fetch1_KEY (restrict_dict (Session store_local_minus5) session5) = Inr sk
       \<and> fetch1 (join_left store_local_minus5 (restrict_dict (Session store_local_minus5) sk)
                    (SessionNote store_local_minus5)) = Inr session_info
       \<and> map_of session_info ''session_datetime''
           = Some (PyDatetime (datetime_of 2020 5 12 4 13 7 0 None)))
   \<and> isoformat (datetime_of 2020 5 12 9 13 7 0 (Some 0)) = ''2020-05-12T09:13:07+00:00''"
proof -
  let ?nwb = "nwbfile5\<lparr>session_start_time := datetime_of 2020 5 12 9 13 7 0 (Some 0)\<rparr>"
  from start_time_is_stored_timestamp_in_utc [OF store_local_minus5_session5]
  obtain sk session_info d where
        k: "fetch1_KEY (restrict_dict (Session store_local_minus5) session5) = Inr sk"
    and i: "fetch1 (join_left store_local_minus5 (restrict_dict (Session store_local_minus5) sk)
                    (SessionNote store_local_minus5)) = Inr session_info"
    and d: "map_of session_info ''session_datetime'' = Some (PyDatetime d)"
    by blast
  have "fetch1_KEY (restrict_dict (Session store_local_minus5) session5) = Inr session5"
    by code_simp
  with k have sk: "sk = session5"
    by simp
  have "fetch1 (join_left store_local_minus5 (restrict_dict (Session store_local_minus5) session5)
                    (SessionNote store_local_minus5))
          = Inr (session5 @ [(''session_note'', PyStr ''first day'')])"
    by code_simp
  with i have "session_info = session5 @ [(''session_note'', PyStr ''first day'')]"
    unfolding sk by simp
  then have "d = datetime_of 2020 5 12 4 13 7 0 None"
    using d by (simp add: session5_def)
  moreover have "isoformat (datetime_of 2020 5 12 9 13 7 0 (Some 0)) = ''2020-05-12T09:13:07+00:00''"
    by code_simp
  ultimately show ?thesis
    using store_local_minus5_session5 k i d by blast
qed

text \<open>
  The default of \<^verbatim>\<open>session_info.get("session_note", "")\<close> is used exactly when the
  fetched row has no \<^verbatim>\<open>session_note\<close> entry. For such a row every artifact returned has
  the empty string as \<^verbatim>\<open>session_description\<close>, and the call on the same session with a
  note has the same outcome, the same error or the same artifact with that note as its
  description.
\<close>

lemma note_default_when_entry_missing:
  assumes "fetch1_KEY (restrict_dict (Session w) key) = Inr sk"
      and "fetch1 (join_left w (restrict_dict (Session w) sk) (SessionNote w)) = Inr session_info"
      and "map_of session_info ''session_note'' = None"
  shows "(\<forall>nwb. fst (session_to_nwb w rng key sid) = Inr nwb \<longrightarrow>
            session_description nwb = PyStr [])
       \<and> (\<forall>remark. fst (session_to_nwb (with_session_note remark w) rng key sid) =
            map_sum id (\<lambda>nwb. nwb\<lparr>session_description := remark\<rparr>)
                       (fst (session_to_nwb w rng key sid)))"
proof -
  have empty: "session_description nwb = PyStr []"
    if r: "fst (session_to_nwb w rng key sid) = Inr nwb" for nwb
  proof -
    from session_to_nwb_Inr [OF r] obtain sk' kw
      where kw: "fst (session_kwargs w rng key) = Inr (sk', kw)"
        and nwb: "subject_and_lab w sk' kw sid = Inr nwb"
      by blast
    from session_kwargs_Inr [OF kw] obtain sid' info' names
      where k: "fetch1_KEY (restrict_dict (Session w) key) = Inr sk'"
        and i: "fetch1 (join_left w (restrict_dict (Session w) sk') (SessionNote w)) = Inr info'"
        and e: "kw = \<lparr>session_id = sid', nwb_identifier = uuid4 w rng,
                    session_start_time = session_start_time kw,
                    session_description = dict_get info' ''session_note'' (PyStr []),
                    experimenter = (if names = [] then None else Some names)\<rparr>"
      by blast
    from k i assms(1,2) have "sk' = sk" "info' = session_info"
      by simp_all
    then have "session_description kw = PyStr []"
      using assms(3) by (subst e) (simp add: dict_get_def)
    with subject_and_lab_keeps [OF nwb] show ?thesis
      by simp
  qed
  have same: "fst (session_to_nwb (with_session_note remark w) rng key sid) =
            map_sum id (\<lambda>nwb. nwb\<lparr>session_description := remark\<rparr>)
                       (fst (session_to_nwb w rng key sid))" for remark
    unfolding session_to_nwb_def session_kwargs_with_session_note [OF assms]
    by (cases "session_kwargs w rng key")
       (auto simp: subject_and_lab_with_session_note subject_and_lab_description
             split: sum.splits)
  from empty same show ?thesis
    by blast
qed

text \<open>
  \<open>session6\<close> has no note. Where the join leaves the entry out, the description is
  empty, and with a note the call returns the same artifact with the note.
\<close>

lemma note_default_when_entry_missing_example:
  "fetch1 (join_left store_leave_out (restrict_dict (Session store_leave_out) session6)
             (SessionNote store_leave_out)) = Inr session6
   \<and> map_of session6 ''session_note'' = None
   \<and> fst (session_to_nwb store_leave_out 0 session6 (PyStr ''s6'')) = Inr (nwbfile6 (PyStr []))
   \<and> fst (session_to_nwb (with_session_note (PyStr ''day two'') store_leave_out) 0 session6
             (PyStr ''s6''))
       = Inr (nwbfile6 (PyStr ''day two''))"
proof -
  have k: "fetch1_KEY (restrict_dict (Session store_leave_out) session6) = Inr session6"
    by code_simp
  have i: "fetch1 (join_left store_leave_out (restrict_dict (Session store_leave_out) session6)
             (SessionNote store_leave_out)) = Inr session6"
    by code_simp
  have a: "map_of session6 ''session_note'' = None"
    by code_simp
  have r: "fst (session_to_nwb store_leave_out 0 session6 (PyStr ''s6'')) = Inr (nwbfile6 (PyStr []))"
    by code_simp
  show ?thesis
    using i a r note_default_when_entry_missing [OF k i a, of 0 "PyStr ''s6''"]
    by (simp add: nwbfile6_def)
qed

text \<open>
  Claim C7 says that when the session's note is absent the artifact's
  \<^verbatim>\<open>session_description\<close> is the empty string and that the absence never makes the call
  fail. The source asks for the left join of line 67 and passes \<^verbatim>\<open>""\<close> as the default of
  \<^verbatim>\<open>get\<close>, but a left join reports the missing note as an entry holding \<open>None\<close>, so
  \<^verbatim>\<open>get\<close> finds the key and does not use the default. On the example store \<open>session6\<close>
  has no note row: the fetched row is the session with \<^verbatim>\<open>session_note\<close> \<open>None\<close>
  (\<open>store_session6_joined_row\<close>), and the artifact's description is \<open>None\<close>, not the
  empty string.
\<close>

theorem missing_note_fetched_as_None:
  "fst (session_to_nwb store 0 session6 (PyStr ''s6'')) = Inr (nwbfile6 PyNone)
   \<and> session_description (nwbfile6 PyNone) = PyNone
   \<and> nwbfile6 PyNone \<noteq> nwbfile6 (PyStr [])"
proof -
  have differ: "nwbfile6 PyNone \<noteq> nwbfile6 (PyStr [])"
    by (simp add: nwbfile6_def)
  have none: "session_description (nwbfile6 PyNone) = PyNone"
    by (simp add: nwbfile6_def)
  have "fst (session_to_nwb store 0 session6 (PyStr ''s6'')) = Inr (nwbfile6 PyNone)"
    by code_simp
  with differ none show ?thesis
    by blast
qed

text \<open>
  Claim C6. In every artifact returned, \<^verbatim>\<open>experimenter\<close> is the list of the
  \<^verbatim>\<open>experimenter\<close> values of the session's \<^verbatim>\<open>SessionExperimenter\<close> rows, in the order the
  rows are fetched, when there is at least one, and \<open>None\<close> when there is none; it is
  never the empty list.
\<close>

theorem experimenter_in_fetch_order_or_none:
  assumes "fst (session_to_nwb w rng key sid) = Inr nwb"
  shows "\<exists>sk. fetch1_KEY (restrict_dict (Session w) key) = Inr sk
             \<and> experimenter nwb =
                 (let names = map (\<lambda>r. dict_get r ''experimenter'' PyNone)
                                  (rows (restrict_dict (SessionExperimenter w) sk))
                  in if names = [] then None else Some names)
             \<and> experimenter nwb \<noteq> Some []"
proof -
  from session_to_nwb_Inr [OF assms] obtain sk kw
    where kw: "fst (session_kwargs w rng key) = Inr (sk, kw)"
      and nwb: "subject_and_lab w sk kw sid = Inr nwb"
    by blast
  from subject_and_lab_keeps [OF nwb] have same: "experimenter nwb = experimenter kw"
    by simp
  from session_kwargs_Inr [OF kw] obtain sid' session_info names
    where k: "fetch1_KEY (restrict_dict (Session w) key) = Inr sk"
      and f: "fetch (restrict_dict (SessionExperimenter w) sk) ''experimenter'' = Inr names"
      and e: "kw = \<lparr>session_id = sid', nwb_identifier = uuid4 w rng,
                  session_start_time = session_start_time kw,
                  session_description = dict_get session_info ''session_note'' (PyStr []),
                  experimenter = (if names = [] then None else Some names)\<rparr>"
    by blast
  from f have names: "names = map (\<lambda>r. dict_get r ''experimenter'' PyNone)
                                  (rows (restrict_dict (SessionExperimenter w) sk))"
    by (auto simp: fetch_def split: if_splits)
  have "experimenter kw = (if names = [] then None else Some names)"
    by (subst e) simp
  with same names k show ?thesis
    by (auto simp: Let_def)
qed

text \<open>
  \<open>session5\<close> has the experimenters \<^verbatim>\<open>zoe\<close> and \<^verbatim>\<open>adam\<close>, stored in that order, and
  \<open>session6\<close> has none.
\<close>

theorem experimenter_in_fetch_order_or_none_witness:
  "fst (session_to_nwb store 0 session5 (PyStr ''s5'')) = Inr nwbfile5
   \<and> map (\<lambda>r. dict_get r ''experimenter'' PyNone)
          (rows (restrict_dict (SessionExperimenter store) session5))
       = [PyStr ''zoe'', PyStr ''adam'']
   \<and> experimenter nwbfile5 = Some [PyStr ''zoe'', PyStr ''adam'']
   \<and> rows (restrict_dict (SessionExperimenter store_animal) session6) = []
   \<and> experimenter (projr (fst (session_to_nwb store_animal 0 session6 PyNone))) = None"
proof -
  have one: "fst (session_to_nwb store 0 session5 (PyStr ''s5'')) = Inr nwbfile5"
    by (simp add: store_nwbfile5)
  have names: "map (\<lambda>r. dict_get r ''experimenter'' PyNone)
          (rows (restrict_dict (SessionExperimenter store) session5))
       = [PyStr ''zoe'', PyStr ''adam'']"
    by code_simp
  have key5: "fetch1_KEY (restrict_dict (Session store) session5) = Inr session5"
    by code_simp
  have none: "rows (restrict_dict (SessionExperimenter store_animal) session6) = []"
    by code_simp
  have key6: "fetch1_KEY (restrict_dict (Session store_animal) session6) = Inr session6"
    by code_simp
  from experimenter_in_fetch_order_or_none [OF one] key5 names
  have a: "experimenter nwbfile5 = Some [PyStr ''zoe'', PyStr ''adam'']"
    by (auto simp: Let_def)
  from experimenter_in_fetch_order_or_none [OF store_session6_animal] key6 none
  have b: "experimenter (projr (fst (session_to_nwb store_animal 0 session6 PyNone))) = None"
    by (auto simp: Let_def store_session6_animal)
  from one names a none b show ?thesis
    by blast
qed

section \<open>The lab's time zone\<close>

text \<open>
  Claim C2 says that with a lab record whose \<^verbatim>\<open>time_zone\<close> is \<^verbatim>\<open>UTC-5\<close> the returned
  start time is the same instant re-expressed at the offset of minus five hours. The
  source evaluates that conversion at line 105 and drops its value. On the example store,
  whose one lab has the time zone \<^verbatim>\<open>UTC-5\<close>, the returned start time still has the offset
  0 and reads \<^verbatim>\<open>2020-05-12T04:13:07+00:00\<close>, while the conversion reads
  \<^verbatim>\<open>2020-05-11T23:13:07-05:00\<close>.
\<close>

theorem utc_minus_5_not_applied:
  "map (\<lambda>r. map_of r ''time_zone'') (rows (lab_query store_lab session5)) = [Some (PyStr ''UTC-5'')]
   \<and> map_sum id (\<lambda>nwb. (tzinfo (session_start_time nwb), isoformat (session_start_time nwb)))
        (fst (session_to_nwb store_lab 0 session5 PyNone))
       = Inr (Some 0, ''2020-05-12T04:13:07+00:00'')
   \<and> map_sum id (\<lambda>d. (tzinfo d, isoformat d))
        (astimezone (local_utcoffset store_lab) (datetime_of 2020 5 12 4 13 7 0 (Some 0))
                    (- 5 * us_per_hour))
       = Inr (Some (- 5 * us_per_hour), ''2020-05-11T23:13:07-05:00'')"
  by code_simp

end
